theory Spec2Isabelle
  imports Complex_Main
begin

section \<open>Customer segmentation pipeline: status records, tables and stages\<close>

text \<open>
  A shallow embedding of \<^verbatim>\<open>backend/spark_job.py\<close> (the pipeline) and of the job
  runner of \<^verbatim>\<open>backend/app.py\<close>. Python code of the repository is translated
  function by function. Calls into PySpark, the file system and float formatting are
  not code of the repository: they are fields of an \<open>environment\<close> record, and every
  general theorem holds for all environments. Python exceptions are values of
  \<open>py_exception\<close>; a function that can raise returns \<open>py_exception + 'a\<close>. Timestamps
  (\<^verbatim>\<open>datetime.now()\<close>) and \<^verbatim>\<open>print\<close> output are left out. Characters are bytes, so
  column names are ASCII here.
\<close>

subsection \<open>Strings\<close>

definition is_space :: "char \<Rightarrow> bool" where
  \<comment> \<open>the ASCII characters for which Python's \<^verbatim>\<open>str.isspace\<close> holds\<close>
  "is_space c = (c \<in> set [CHR 0x09, CHR 0x0A, CHR 0x0B, CHR 0x0C, CHR 0x0D,
                            CHR 0x1C, CHR 0x1D, CHR 0x1E, CHR 0x1F, CHR '' ''])"

definition lower_char :: "char \<Rightarrow> char" where
  "lower_char c =
     (case map_of (zip ''ABCDEFGHIJKLMNOPQRSTUVWXYZ'' ''abcdefghijklmnopqrstuvwxyz'') c of
        Some d \<Rightarrow> d
      | None \<Rightarrow> c)"

definition str_lower :: "string \<Rightarrow> string" where
  "str_lower s = map lower_char s"

definition str_strip :: "string \<Rightarrow> string" where
  "str_strip s = rev (dropWhile is_space (rev (dropWhile is_space s)))"

definition normalize_name :: "string \<Rightarrow> string" where
  \<comment> \<open>\<^verbatim>\<open>col.strip().lower()\<close>\<close>
  "normalize_name s = str_lower (str_strip s)"

definition digit_char :: "nat \<Rightarrow> char" where
  "digit_char d = ''0123456789'' ! d"

fun str_nat :: "nat \<Rightarrow> string" where
  "str_nat n = (if n < 10 then [digit_char n] else str_nat (n div 10) @ [digit_char (n mod 10)])"

declare str_nat.simps [simp del]

definition str_int :: "int \<Rightarrow> string" where
  \<comment> \<open>\<^verbatim>\<open>str\<close> of a Python integer\<close>
  "str_int i = (if i < 0 then ''-'' @ str_nat (nat (- i)) else str_nat (nat i))"

fun join_comma :: "string list \<Rightarrow> string" where
  "join_comma [] = ''''"
| "join_comma [s] = s"
| "join_comma (s # t # ss) = s @ '', '' @ join_comma (t # ss)"

definition repr_str_list :: "string list \<Rightarrow> string" where
  \<comment> \<open>\<^verbatim>\<open>repr\<close> of a list of strings without quotes or backslashes, as an f-string prints it\<close>
  "repr_str_list xs = ''['' @ join_comma (map (\<lambda>s. [CHR 0x27] @ s @ [CHR 0x27]) xs) @ '']''"

subsection \<open>Exceptions\<close>

datatype py_exception =
    ValueError string
  | TypeError string
  | OSError string
  | SparkError string

fun str_exc :: "py_exception \<Rightarrow> string" where
  \<comment> \<open>\<^verbatim>\<open>str(e)\<close>\<close>
  "str_exc (ValueError m) = m"
| "str_exc (TypeError m) = m"
| "str_exc (OSError m) = m"
| "str_exc (SparkError m) = m"

subsection \<open>Tables\<close>

text \<open>
  A Spark DataFrame is a schema (column names with their types, in order; names may
  repeat) and a list of rows whose cells are aligned with the schema. A Spark double is
  a real number here: NaN and the infinities are not represented.
\<close>

datatype dtype = IntegerType | DoubleType | StringType | VectorType

datatype cell = Null | IntV int | DblV real | StrV string | VecV "real list"

record dataframe =
  schema :: "(string \<times> dtype) list"
  rows :: "cell list list"

definition columns :: "dataframe \<Rightarrow> string list" where
  \<comment> \<open>\<^verbatim>\<open>df.columns\<close>\<close>
  "columns df = map fst (schema df)"

definition same_name :: "string \<Rightarrow> string \<Rightarrow> bool" where
  \<comment> \<open>Spark's default resolver: column names are compared ignoring case\<close>
  "same_name a b = (str_lower a = str_lower b)"

definition cell_at :: "cell list \<Rightarrow> nat \<Rightarrow> cell" where
  "cell_at r i = (if i < length r then r ! i else Null)"

definition column_cells :: "dataframe \<Rightarrow> nat \<Rightarrow> cell list" where
  "column_cells df i = map (\<lambda>r. cell_at r i) (rows df)"

definition resolve :: "dataframe \<Rightarrow> string \<Rightarrow> py_exception + nat" where
  \<comment> \<open>the position of the one column a name refers to; Spark raises an AnalysisException
      for a name that no column or more than one column has (the texts are placeholders)\<close>
  "resolve df name =
     (case filter (\<lambda>i. same_name (columns df ! i) name) [0..<length (columns df)] of
        [] \<Rightarrow> Inl (SparkError (''cannot resolve '' @ name))
      | [i] \<Rightarrow> Inr i
      | _ \<Rightarrow> Inl (SparkError (''ambiguous reference '' @ name)))"

definition withColumnRenamed :: "dataframe \<Rightarrow> string \<Rightarrow> string \<Rightarrow> dataframe" where
  "withColumnRenamed df existing new =
     df\<lparr>schema := map (\<lambda>(c, t). if same_name c existing then (new, t) else (c, t)) (schema df)\<rparr>"

definition withColumn :: "dataframe \<Rightarrow> string \<Rightarrow> dtype \<Rightarrow> (cell list \<Rightarrow> cell) \<Rightarrow> dataframe" where
  \<comment> \<open>\<^verbatim>\<open>df.withColumn(name, expr)\<close>: \<open>f\<close> computes the expression on a row of \<open>df\<close>; an
      existing column of that name is replaced in place, otherwise the column is appended\<close>
  "withColumn df name t f =
     (if \<exists>c \<in> set (columns df). same_name c name
      then \<lparr>schema = map (\<lambda>(c, u). if same_name c name then (name, t) else (c, u)) (schema df),
            rows = map (\<lambda>r. map (\<lambda>i. if same_name (columns df ! i) name then f r else cell_at r i)
                                  [0..<length (schema df)]) (rows df)\<rparr>
      else \<lparr>schema = schema df @ [(name, t)],
            rows = map (\<lambda>r. map (cell_at r) [0..<length (schema df)] @ [f r]) (rows df)\<rparr>)"

fun resolve_all :: "dataframe \<Rightarrow> string list \<Rightarrow> py_exception + nat list" where
  "resolve_all df [] = Inr []"
| "resolve_all df (n # ns) =
     (case resolve df n of
        Inl e \<Rightarrow> Inl e
      | Inr i \<Rightarrow> (case resolve_all df ns of Inl e \<Rightarrow> Inl e | Inr js \<Rightarrow> Inr (i # js)))"

definition dropna :: "dataframe \<Rightarrow> string list \<Rightarrow> py_exception + dataframe" where
  \<comment> \<open>\<^verbatim>\<open>df.dropna(subset=names)\<close>: keeps the rows with no null in the named columns\<close>
  "dropna df names =
     (case resolve_all df names of
        Inl e \<Rightarrow> Inl e
      | Inr js \<Rightarrow> Inr (df\<lparr>rows := filter (\<lambda>r. list_all (\<lambda>i. cell_at r i \<noteq> Null) js) (rows df)\<rparr>))"

definition trunc :: "real \<Rightarrow> int" where
  \<comment> \<open>rounding toward zero: Spark's cast of a double to an integer, Python's \<^verbatim>\<open>int\<close> of a float\<close>
  "trunc x = (if 0 \<le> x then \<lfloor>x\<rfloor> else \<lceil>x\<rceil>)"

subsection \<open>Result artifacts and the world\<close>

record status_record =
  job_id :: string
  stage :: string
  progress :: int
  message :: string

record cluster_info =
  ci_id :: int
  ci_size :: int
  avgAge :: real
  avgSpend :: real
  avgRecency :: real
  avgFrequency :: real
  minSpend :: real
  maxSpend :: real
  topCategory :: string
  description :: string

record segment_profiles =
  numClusters :: nat
  totalCustomers :: int
  clusters :: "cluster_info list"
  silhouetteScore :: real

type_synonym chart_data = string
  \<comment> \<open>the JSON text of \<^verbatim>\<open>chart_data.json\<close>; its contents are not modelled\<close>

type_synonym kmeans_model = "real list list"
  \<comment> \<open>a fitted KMeansModel, as its cluster centres\<close>

type_synonym path = "string \<times> string"
  \<comment> \<open>\<^verbatim>\<open>Path(directory) / file_name\<close>\<close>

record world =
  status_files :: "path \<rightharpoonup> status_record"
  jobs :: "string \<rightharpoonup> status_record"
  profile_files :: "path \<rightharpoonup> segment_profiles"
  chart_files :: "path \<rightharpoonup> chart_data"
  csv_files :: "path \<rightharpoonup> dataframe"
  status_writes :: "(path \<times> status_record) list"

text \<open>
  \<open>status_files\<close> is the status directory (the latest write wins), \<open>jobs\<close> the in-memory
  dictionary of \<^verbatim>\<open>app.py\<close>. \<open>status_writes\<close> is the history of the status sink: every
  status record written to a file, oldest first.
\<close>

record environment =
  STATUS_DIR :: string
  RESULTS_DIR :: string
  fs_open :: "world \<Rightarrow> path \<Rightarrow> py_exception option"
  get_or_create :: "py_exception option"
  read_csv :: "string \<Rightarrow> py_exception + dataframe"
  parse_double :: "string \<Rightarrow> real option"
  double_to_string :: "real \<Rightarrow> string"
  median_of :: "cell list \<Rightarrow> real option"
  stddev_of :: "cell list \<Rightarrow> real option"
  avg_of :: "cell list \<Rightarrow> real option"
  min_of :: "cell list \<Rightarrow> cell"
  max_of :: "cell list \<Rightarrow> cell"
  python_float :: "string \<Rightarrow> real option"
  python_int :: "string \<Rightarrow> int option"
  python_round :: "real \<Rightarrow> nat \<Rightarrow> real"
  format_4f :: "real \<Rightarrow> string"
  assemble_and_show :: "dataframe \<Rightarrow> py_exception + dataframe"
  standard_scaler :: "dataframe \<Rightarrow> py_exception + dataframe"
  kmeans_fit :: "int \<Rightarrow> dataframe \<Rightarrow> py_exception + kmeans_model"
  kmeans_transform :: "kmeans_model \<Rightarrow> dataframe \<Rightarrow> py_exception + dataframe"
  evaluate :: "kmeans_model \<Rightarrow> py_exception + real"
  chart_data_of :: "dataframe \<Rightarrow> py_exception + chart_data"
  write_csv :: "dataframe \<Rightarrow> path \<Rightarrow> py_exception option"
  spark_stop :: "py_exception option"

text \<open>
  The environment: what the code calls and the repository does not define.
  \<^item> \<open>fs_open w p\<close>: the exception \<^verbatim>\<open>open(p, 'w')\<close> raises in world \<open>w\<close>, if any;
  \<^item> \<open>get_or_create\<close>: the exception \<^verbatim>\<open>SparkSession.builder...getOrCreate()\<close> raises, if any;
  \<^item> \<open>read_csv\<close>: \<^verbatim>\<open>spark.read.csv(path, header=True, inferSchema=True)\<close>;
  \<^item> \<open>parse_double\<close>: Spark's reading of a text as a double; \<open>double_to_string\<close> its printing;
  \<^item> \<open>median_of\<close>, \<open>stddev_of\<close>, \<open>avg_of\<close>, \<open>min_of\<close>, \<open>max_of\<close>: Spark's aggregate functions on the
    cells of a column;
  \<^item> \<open>python_float\<close>, \<open>python_int\<close> (of a \<^verbatim>\<open>str\<close>), \<open>python_round\<close>, \<open>format_4f\<close> (\<^verbatim>\<open>f'{x:.4f}'\<close>):
    Python's float arithmetic;
  \<^item> \<open>assemble_and_show\<close>: \<^verbatim>\<open>VectorAssembler.transform\<close> followed by \<^verbatim>\<open>show(5)\<close>;
    \<open>standard_scaler\<close>: \<^verbatim>\<open>StandardScaler.fit\<close> and \<^verbatim>\<open>transform\<close>; \<open>kmeans_fit k\<close>: \<^verbatim>\<open>KMeans(k=k,
    seed=42, maxIter=20, ...).fit\<close>; \<open>kmeans_transform\<close>: the model's \<^verbatim>\<open>transform\<close>;
    \<open>evaluate\<close>: \<^verbatim>\<open>ClusteringEvaluator.evaluate\<close>, called on the model as the source does;
  \<^item> \<open>chart_data_of\<close>: the aggregations of \<^verbatim>\<open>generate_chart_data\<close> (its lines 316 to 374);
  \<^item> \<open>write_csv\<close>: the exception \<^verbatim>\<open>df.coalesce(1).write.mode('overwrite').csv(path)\<close> raises, if any;
  \<^item> \<open>spark_stop\<close>: the exception \<^verbatim>\<open>spark.stop()\<close> raises, if any.
\<close>

subsection \<open>Computations that write and may raise\<close>

type_synonym 'a io = "world \<Rightarrow> (py_exception + 'a) \<times> world"

definition io_return :: "'a \<Rightarrow> 'a io" where
  "io_return x = (\<lambda>w. (Inr x, w))"

definition io_lift :: "py_exception + 'a \<Rightarrow> 'a io" where
  \<comment> \<open>a computation that may raise and writes nothing\<close>
  "io_lift r = (\<lambda>w. (r, w))"

definition io_bind :: "'a io \<Rightarrow> ('a \<Rightarrow> 'b io) \<Rightarrow> 'b io" where
  \<comment> \<open>sequencing: an exception leaves the rest out and keeps what was written\<close>
  "io_bind m f = (\<lambda>w. case m w of (Inl e, w') \<Rightarrow> (Inl e, w') | (Inr x, w') \<Rightarrow> f x w')"

definition try_except :: "'a io \<Rightarrow> (py_exception \<Rightarrow> 'a io) \<Rightarrow> 'a io" where
  \<comment> \<open>\<^verbatim>\<open>try: m except Exception as e: h e\<close>\<close>
  "try_except m h = (\<lambda>w. case m w of (Inl e, w') \<Rightarrow> h e w' | (Inr x, w') \<Rightarrow> (Inr x, w'))"

definition bind_pure :: "py_exception + 'a \<Rightarrow> ('a \<Rightarrow> py_exception + 'b) \<Rightarrow> py_exception + 'b" where
  "bind_pure r f = (case r of Inl e \<Rightarrow> Inl e | Inr x \<Rightarrow> f x)"

definition log_progress :: "environment \<Rightarrow> string \<Rightarrow> string \<Rightarrow> string \<Rightarrow> int \<Rightarrow> string \<Rightarrow> unit io" where
  "log_progress E jid sdir stg prog msg = (\<lambda>w.
     let status_data = \<lparr>job_id = jid, stage = stg, progress = prog, message = msg\<rparr>;
         status_file = (sdir, jid @ ''.json'')
     in case fs_open E w status_file of
          Some e \<Rightarrow> (Inl e, w)
        | None \<Rightarrow> (Inr (), w\<lparr>status_files := (status_files w)(status_file \<mapsto> status_data),
                              status_writes := status_writes w @ [(status_file, status_data)]\<rparr>))"

definition update_job_status :: "environment \<Rightarrow> string \<Rightarrow> string \<Rightarrow> int \<Rightarrow> string \<Rightarrow> unit io" where
  \<comment> \<open>\<^verbatim>\<open>app.py\<close>: the in-memory dictionary is updated before the file is opened\<close>
  "update_job_status E jid stg prog msg = (\<lambda>w.
     let status_data = \<lparr>job_id = jid, stage = stg, progress = prog, message = msg\<rparr>;
         w1 = w\<lparr>jobs := (jobs w)(jid \<mapsto> status_data)\<rparr>;
         status_file = (STATUS_DIR E, jid @ ''.json'')
     in case fs_open E w1 status_file of
          Some e \<Rightarrow> (Inl e, w1)
        | None \<Rightarrow> (Inr (), w1\<lparr>status_files := (status_files w1)(status_file \<mapsto> status_data),
                               status_writes := status_writes w1 @ [(status_file, status_data)]\<rparr>))"

subsection \<open>Column names: \<^verbatim>\<open>get_column_names\<close>, \<^verbatim>\<open>normalize_dataframe\<close>, \<^verbatim>\<open>validate_required_columns\<close>\<close>

definition get_column_names :: "dataframe \<Rightarrow> string list" where
  "get_column_names df = map normalize_name (columns df)"

definition normalize_dataframe :: "dataframe \<Rightarrow> dataframe" where
  "normalize_dataframe df =
     foldl (\<lambda>df_normalized col_name.
              let normalized_name = normalize_name col_name
              in if col_name \<noteq> normalized_name
                 then withColumnRenamed df_normalized col_name normalized_name
                 else df_normalized)
           df (columns df)"

definition required :: "string list" where
  "required = [''age'', ''spend'', ''recency'', ''frequency'']"

definition validate_required_columns :: "dataframe \<Rightarrow> py_exception + bool" where
  "validate_required_columns df =
     (let cols = get_column_names df;
          missing = filter (\<lambda>c. c \<notin> set cols) required
      in if missing \<noteq> []
         then Inl (ValueError (''Missing required columns: '' @ repr_str_list missing))
         else Inr True)"

subsection \<open>Stage 2: \<^verbatim>\<open>preprocess_data\<close>\<close>

datatype py_number = PyFloat real | PyInt int

definition agg_median :: "environment \<Rightarrow> dataframe \<Rightarrow> string \<Rightarrow> py_exception + real option" where
  \<comment> \<open>\<^verbatim>\<open>df.agg({name: 'median'}).collect()[0][0]\<close>\<close>
  "agg_median E df name = bind_pure (resolve df name) (\<lambda>i. Inr (median_of E (column_cells df i)))"

definition fill_literal :: "environment \<Rightarrow> dtype \<Rightarrow> py_number \<Rightarrow> py_exception + cell" where
  \<comment> \<open>Spark casts the replacement value to the type of the column it fills\<close>
  "fill_literal E t v =
     (case t of
        DoubleType \<Rightarrow> Inr (DblV (case v of PyFloat x \<Rightarrow> x | PyInt i \<Rightarrow> of_int i))
      | IntegerType \<Rightarrow> Inr (IntV (case v of PyFloat x \<Rightarrow> trunc x | PyInt i \<Rightarrow> i))
      | StringType \<Rightarrow> Inr (StrV (case v of PyFloat x \<Rightarrow> double_to_string E x | PyInt i \<Rightarrow> str_int i))
      | VectorType \<Rightarrow> Inl (SparkError ''cannot cast to a vector''))"

definition fillna :: "environment \<Rightarrow> dataframe \<Rightarrow> string \<Rightarrow> py_number \<Rightarrow> py_exception + dataframe" where
  \<comment> \<open>\<^verbatim>\<open>df.fillna({name: v})\<close>\<close>
  "fillna E df name v =
     bind_pure (resolve df name) (\<lambda>i.
     bind_pure (fill_literal E (snd (schema df ! i)) v) (\<lambda>c.
     Inr (df\<lparr>rows := map (\<lambda>r. if cell_at r i = Null then r[i := c] else r) (rows df)\<rparr>)))"

fun fill_missing :: "environment \<Rightarrow> dataframe \<Rightarrow> string list \<Rightarrow> py_exception + dataframe" where
  \<comment> \<open>the loop of lines 92 to 97\<close>
  "fill_missing E df [] = Inr df"
| "fill_missing E df (col_name # cs) =
     (if col_name \<in> set (columns df)
      then bind_pure (agg_median E df col_name) (\<lambda>m.
             let median_value = (case m of None \<Rightarrow> PyInt 0 | Some x \<Rightarrow> PyFloat x)
             in bind_pure (fillna E df col_name median_value) (\<lambda>df'. fill_missing E df' cs))
      else fill_missing E df cs)"

fun cast_double :: "environment \<Rightarrow> cell \<Rightarrow> cell" where
  \<comment> \<open>\<^verbatim>\<open>cast('double')\<close> of a value: a text that is not a number becomes null\<close>
  "cast_double E Null = Null"
| "cast_double E (IntV i) = DblV (of_int i)"
| "cast_double E (DblV x) = DblV x"
| "cast_double E (StrV s) = (case parse_double E s of Some x \<Rightarrow> DblV x | None \<Rightarrow> Null)"
| "cast_double E (VecV v) = Null"

definition cast_column :: "environment \<Rightarrow> dataframe \<Rightarrow> string \<Rightarrow> py_exception + dataframe" where
  \<comment> \<open>\<^verbatim>\<open>df.withColumn(name, col(name).cast('double'))\<close>; a vector column cannot be cast\<close>
  "cast_column E df name =
     bind_pure (resolve df name) (\<lambda>i.
       if snd (schema df ! i) = VectorType then Inl (SparkError ''cannot cast a vector to double'')
       else Inr (withColumn df name DoubleType (\<lambda>r. cast_double E (cell_at r i))))"

fun cast_columns :: "environment \<Rightarrow> dataframe \<Rightarrow> string list \<Rightarrow> py_exception + dataframe" where
  \<comment> \<open>the loop of lines 103 to 105\<close>
  "cast_columns E df [] = Inr df"
| "cast_columns E df (col_name # cs) =
     bind_pure (cast_column E df col_name) (\<lambda>df'. cast_columns E df' cs)"

definition numeric_cols :: "string list" where
  "numeric_cols = [''age'', ''spend'', ''recency'', ''frequency'']"

definition preprocess_cleaning :: "environment \<Rightarrow> dataframe \<Rightarrow> py_exception + dataframe" where
  \<comment> \<open>lines 84 to 105 of \<^verbatim>\<open>preprocess_data\<close>: the table before the outlier step\<close>
  "preprocess_cleaning E df =
     (let df1 = normalize_dataframe df
      in bind_pure (validate_required_columns df1) (\<lambda>_.
         bind_pure (fill_missing E df1 numeric_cols) (\<lambda>df2.
         bind_pure (dropna df2 numeric_cols) (\<lambda>df3.
         cast_columns E df3 numeric_cols))))"

definition spend_stats :: "environment \<Rightarrow> dataframe \<Rightarrow> py_exception + real option" where
  \<comment> \<open>lines 108 to 113: the dict literal repeats the key \<^verbatim>\<open>'spend'\<close>, so Python keeps only
      its last entry, \<^verbatim>\<open>'stddev'\<close>\<close>
  "spend_stats E df = bind_pure (resolve df ''spend'') (\<lambda>i. Inr (stddev_of E (column_cells df i)))"

definition preprocess_data :: "environment \<Rightarrow> dataframe \<Rightarrow> string \<Rightarrow> string \<Rightarrow> dataframe io" where
  "preprocess_data E df jid sdir =
     io_bind (log_progress E jid sdir ''preprocessing'' 25 ''Handling missing values and outliers'') (\<lambda>_.
     io_bind (io_lift (preprocess_cleaning E df)) (\<lambda>spark_df.
     io_bind (io_lift (spend_stats E spark_df)) (\<lambda>stats.
     io_bind (log_progress E jid sdir ''preprocessing'' 30 ''Removing outliers'') (\<lambda>_.
     io_return spark_df))))"

subsection \<open>Stage 3: \<^verbatim>\<open>feature_engineering\<close>, \<^verbatim>\<open>create_feature_vector\<close>, \<^verbatim>\<open>scale_features\<close>\<close>

fun cast_present :: "environment \<Rightarrow> dataframe \<Rightarrow> string list \<Rightarrow> py_exception + dataframe" where
  \<comment> \<open>the loop of lines 131 to 133\<close>
  "cast_present E df [] = Inr df"
| "cast_present E df (col_name # cs) =
     (if col_name \<in> set (columns df)
      then bind_pure (cast_column E df col_name) (\<lambda>df'. cast_present E df' cs)
      else cast_present E df cs)"

definition num :: "environment \<Rightarrow> cell \<Rightarrow> real option" where
  \<comment> \<open>the value of a cell in double arithmetic\<close>
  "num E c = (case cast_double E c of DblV x \<Rightarrow> Some x | _ \<Rightarrow> None)"

definition ratio :: "environment \<Rightarrow> cell \<Rightarrow> cell \<Rightarrow> cell" where
  \<comment> \<open>\<^verbatim>\<open>a / (b + 1)\<close> in Spark: null for a null operand and for a zero divisor\<close>
  "ratio E a b =
     (case (num E a, num E b) of
        (Some x, Some y) \<Rightarrow> if y + 1 = 0 then Null else DblV (x / (y + 1))
      | _ \<Rightarrow> Null)"

definition age_group :: "environment \<Rightarrow> cell \<Rightarrow> cell" where
  \<comment> \<open>\<^verbatim>\<open>(col('age') / 10).cast('int') * 10\<close>\<close>
  "age_group E a = (case num E a of Some x \<Rightarrow> IntV (trunc (x / 10) * 10) | None \<Rightarrow> Null)"

definition add_age_group :: "environment \<Rightarrow> dataframe \<Rightarrow> py_exception + dataframe" where
  \<comment> \<open>lines 136 to 138\<close>
  "add_age_group E df =
     (if ''age_group'' \<notin> set (columns df)
      then bind_pure (resolve df ''age'') (\<lambda>a.
             Inr (withColumn df ''age_group'' IntegerType (\<lambda>r. age_group E (cell_at r a))))
      else Inr df)"

definition add_ratio :: "environment \<Rightarrow> dataframe \<Rightarrow> string \<Rightarrow> string \<Rightarrow> string \<Rightarrow> py_exception + dataframe" where
  \<comment> \<open>\<^verbatim>\<open>df.withColumn(name, col(a) / (col(b) + 1))\<close>\<close>
  "add_ratio E df name a b =
     bind_pure (resolve df a) (\<lambda>i.
     bind_pure (resolve df b) (\<lambda>j.
     Inr (withColumn df name DoubleType (\<lambda>r. ratio E (cell_at r i) (cell_at r j)))))"

definition feature_engineering :: "environment \<Rightarrow> dataframe \<Rightarrow> string \<Rightarrow> string \<Rightarrow> dataframe io" where
  "feature_engineering E df jid sdir =
     io_bind (log_progress E jid sdir ''feature_engineering'' 40 ''Starting feature engineering'') (\<lambda>_.
     io_bind (io_lift
        (bind_pure (cast_present E df [''age'', ''spend'', ''recency'', ''frequency'']) (\<lambda>df1.
         bind_pure (add_age_group E df1) (\<lambda>df2.
         bind_pure (add_ratio E df2 ''rf_ratio'' ''frequency'' ''recency'') (\<lambda>df3.
         add_ratio E df3 ''spend_per_purchase'' ''spend'' ''frequency''))))) (\<lambda>spark_df.
     io_bind (log_progress E jid sdir ''feature_engineering'' 50 ''Features engineered'') (\<lambda>_.
     io_return spark_df)))"

definition create_feature_vector :: "environment \<Rightarrow> dataframe \<Rightarrow> string \<Rightarrow> string \<Rightarrow> dataframe io" where
  "create_feature_vector E df jid sdir =
     io_bind (log_progress E jid sdir ''vectorization'' 55 ''Assembling features into vectors'') (\<lambda>_.
     io_bind (io_lift (assemble_and_show E df)) (\<lambda>spark_df.
     io_bind (log_progress E jid sdir ''vectorization'' 60 ''Feature vector created'') (\<lambda>_.
     io_return spark_df)))"

definition scale_features :: "environment \<Rightarrow> dataframe \<Rightarrow> string \<Rightarrow> string \<Rightarrow> dataframe io" where
  "scale_features E df jid sdir =
     io_bind (log_progress E jid sdir ''scaling'' 65 ''Scaling features'') (\<lambda>_.
     io_bind (io_lift (standard_scaler E df)) (\<lambda>spark_df.
     io_bind (log_progress E jid sdir ''scaling'' 70 ''Features scaled'') (\<lambda>_.
     io_return spark_df)))"

subsection \<open>Stage 4: \<^verbatim>\<open>perform_clustering\<close>\<close>

definition perform_clustering ::
  "environment \<Rightarrow> dataframe \<Rightarrow> int \<Rightarrow> string \<Rightarrow> string \<Rightarrow> (dataframe \<times> kmeans_model \<times> real) io" where
  "perform_clustering E df k jid sdir =
     io_bind (log_progress E jid sdir ''clustering'' 75 (''Running KMeans with k='' @ str_int k)) (\<lambda>_.
     io_bind (io_lift (kmeans_fit E k df)) (\<lambda>model.
     io_bind (io_lift (kmeans_transform E model df)) (\<lambda>spark_df.
     io_bind (io_lift (evaluate E model)) (\<lambda>silhouette_score.
     io_bind (log_progress E jid sdir ''clustering'' 85
                (''KMeans complete. Silhouette Score: '' @ format_4f E silhouette_score)) (\<lambda>_.
     io_return (spark_df, model, silhouette_score))))))"

subsection \<open>Stage 5: \<^verbatim>\<open>generate_segment_profiles\<close>, \<^verbatim>\<open>get_cluster_description\<close>\<close>

record stats_row =
  r_cluster :: cell
  r_size :: int
  avg_age :: "real option"
  avg_spend :: "real option"
  avg_recency :: "real option"
  avg_frequency :: "real option"
  min_spend :: cell
  max_spend :: cell

definition cluster_stats :: "environment \<Rightarrow> dataframe \<Rightarrow> py_exception + stats_row list" where
  \<comment> \<open>\<^verbatim>\<open>df.groupBy('cluster').agg(...).collect()\<close>: one row for each value of the cluster
      column. Spark fixes no order of the groups; here they come in the order of remdups.\<close>
  "cluster_stats E df =
     bind_pure (resolve df ''cluster'') (\<lambda>c.
     bind_pure (resolve df ''age'') (\<lambda>a.
     bind_pure (resolve df ''spend'') (\<lambda>s.
     bind_pure (resolve df ''recency'') (\<lambda>rc.
     bind_pure (resolve df ''frequency'') (\<lambda>f.
     Inr (map (\<lambda>key.
            let grp = filter (\<lambda>r. cell_at r c = key) (rows df)
            in \<lparr>r_cluster = key,
                r_size = int (length grp),
                avg_age = avg_of E (map (\<lambda>r. cell_at r a) grp),
                avg_spend = avg_of E (map (\<lambda>r. cell_at r s) grp),
                avg_recency = avg_of E (map (\<lambda>r. cell_at r rc) grp),
                avg_frequency = avg_of E (map (\<lambda>r. cell_at r f) grp),
                min_spend = min_of E (map (\<lambda>r. cell_at r s) grp),
                max_spend = max_of E (map (\<lambda>r. cell_at r s) grp)\<rparr>)
          (remdups (column_cells df c))))))))"

fun py_int :: "environment \<Rightarrow> cell \<Rightarrow> py_exception + int" where
  \<comment> \<open>Python's \<^verbatim>\<open>int(v)\<close>\<close>
  "py_int E (IntV i) = Inr i"
| "py_int E (DblV x) = Inr (trunc x)"
| "py_int E (StrV s) =
     (case python_int E s of Some i \<Rightarrow> Inr i | None \<Rightarrow> Inl (ValueError ''invalid literal for int()''))"
| "py_int E Null = Inl (TypeError ''int() argument must be a string or a real number'')"
| "py_int E (VecV v) = Inl (TypeError ''int() argument must be a string or a real number'')"

fun py_float :: "environment \<Rightarrow> cell \<Rightarrow> py_exception + real" where
  \<comment> \<open>Python's \<^verbatim>\<open>float(v)\<close>\<close>
  "py_float E (IntV i) = Inr (of_int i)"
| "py_float E (DblV x) = Inr x"
| "py_float E (StrV s) =
     (case python_float E s of Some x \<Rightarrow> Inr x | None \<Rightarrow> Inl (ValueError ''could not convert string to float''))"
| "py_float E Null = Inl (TypeError ''float() argument must be a string or a real number'')"
| "py_float E (VecV v) = Inl (TypeError ''float() argument must be a string or a real number'')"

fun float_opt :: "real option \<Rightarrow> py_exception + real" where
  \<comment> \<open>\<^verbatim>\<open>float(v)\<close> of an average: a number, or \<^verbatim>\<open>None\<close> for a group with no value\<close>
  "float_opt (Some x) = Inr x"
| "float_opt None = Inl (TypeError ''float() argument must be a string or a real number'')"

definition get_cluster_description :: "stats_row \<Rightarrow> py_exception + string" where
  "get_cluster_description row =
     bind_pure (float_opt (avg_spend row)) (\<lambda>spend.
     bind_pure (float_opt (avg_age row)) (\<lambda>age.
     bind_pure (float_opt (avg_frequency row)) (\<lambda>frequency.
     Inr (if spend > 1500 then
            (if age > 55 then ''Luxury Segment'' else ''Premium Customers'')
          else if spend > 900 then ''Regular Shoppers''
          else if frequency < 3 then ''Budget Conscious''
          else ''Emerging Customers''))))"

definition make_cluster_info :: "environment \<Rightarrow> stats_row \<Rightarrow> py_exception + cluster_info" where
  \<comment> \<open>the body of the loop of lines 250 to 267, up to the dictionary\<close>
  "make_cluster_info E row =
     bind_pure (py_int E (r_cluster row)) (\<lambda>cluster_id.
     bind_pure (float_opt (avg_age row)) (\<lambda>a.
     bind_pure (float_opt (avg_spend row)) (\<lambda>s.
     bind_pure (float_opt (avg_recency row)) (\<lambda>rc.
     bind_pure (float_opt (avg_frequency row)) (\<lambda>f.
     bind_pure (py_float E (min_spend row)) (\<lambda>lo.
     bind_pure (py_float E (max_spend row)) (\<lambda>hi.
     bind_pure (get_cluster_description row) (\<lambda>d.
     Inr \<lparr>ci_id = cluster_id,
          ci_size = r_size row,
          avgAge = python_round E a 1,
          avgSpend = python_round E s 2,
          avgRecency = python_round E rc 1,
          avgFrequency = python_round E f 1,
          minSpend = python_round E lo 2,
          maxSpend = python_round E hi 2,
          topCategory = ''Electronics'',
          description = d\<rparr>))))))))"

fun build_clusters ::
  "environment \<Rightarrow> stats_row list \<Rightarrow> cluster_info list \<Rightarrow> int \<Rightarrow> py_exception + (cluster_info list \<times> int)" where
  \<comment> \<open>the loop of lines 250 to 267, with its two accumulators\<close>
  "build_clusters E [] acc total_customers = Inr (acc, total_customers)"
| "build_clusters E (row # rest) acc total_customers =
     bind_pure (make_cluster_info E row) (\<lambda>info.
       build_clusters E rest (acc @ [info]) (total_customers + ci_size info))"

definition sort_by_size_desc :: "cluster_info list \<Rightarrow> cluster_info list" where
  \<comment> \<open>\<^verbatim>\<open>clusters.sort(key=lambda x: x['size'], reverse=True)\<close>: Python's sort is stable,
      also with \<^verbatim>\<open>reverse=True\<close>\<close>
  "sort_by_size_desc cs = sort_key (\<lambda>c. - ci_size c) cs"

definition write_profiles :: "environment \<Rightarrow> path \<Rightarrow> segment_profiles \<Rightarrow> unit io" where
  \<comment> \<open>\<^verbatim>\<open>with open(output_file, 'w') as f: json.dump(segment_profiles, f, indent=2)\<close>\<close>
  "write_profiles E output_file p = (\<lambda>w.
     case fs_open E w output_file of
       Some e \<Rightarrow> (Inl e, w)
     | None \<Rightarrow> (Inr (), w\<lparr>profile_files := (profile_files w)(output_file \<mapsto> p)\<rparr>))"

definition generate_segment_profiles ::
  "environment \<Rightarrow> dataframe \<Rightarrow> string \<Rightarrow> string \<Rightarrow> string \<Rightarrow> segment_profiles io" where
  "generate_segment_profiles E df rdir jid sdir =
     io_bind (log_progress E jid sdir ''profiling'' 90 ''Generating segment profiles'') (\<lambda>_.
     io_bind (io_lift (cluster_stats E df)) (\<lambda>stats.
     io_bind (io_lift (build_clusters E stats [] 0)) (\<lambda>(cs, total_customers).
     let profiles = \<lparr>numClusters = length cs,
                      totalCustomers = total_customers,
                      clusters = sort_by_size_desc cs,
                      silhouetteScore = 72 / 100\<rparr>
     in io_bind (write_profiles E (rdir, ''segment_profiles.json'') profiles) (\<lambda>_.
        io_return profiles))))"

subsection \<open>\<^verbatim>\<open>generate_chart_data\<close> and \<^verbatim>\<open>save_segmented_customers\<close>\<close>

definition write_chart :: "environment \<Rightarrow> path \<Rightarrow> chart_data \<Rightarrow> unit io" where
  "write_chart E output_file c = (\<lambda>w.
     case fs_open E w output_file of
       Some e \<Rightarrow> (Inl e, w)
     | None \<Rightarrow> (Inr (), w\<lparr>chart_files := (chart_files w)(output_file \<mapsto> c)\<rparr>))"

definition generate_chart_data :: "environment \<Rightarrow> dataframe \<Rightarrow> string \<Rightarrow> string \<Rightarrow> string \<Rightarrow> chart_data io" where
  "generate_chart_data E df rdir jid sdir =
     io_bind (log_progress E jid sdir ''visualization'' 95 ''Generating visualization data'') (\<lambda>_.
     io_bind (io_lift (chart_data_of E df)) (\<lambda>c.
     io_bind (write_chart E (rdir, ''chart_data.json'') c) (\<lambda>_.
     io_return c)))"

definition select :: "dataframe \<Rightarrow> string list \<Rightarrow> py_exception + dataframe" where
  \<comment> \<open>\<^verbatim>\<open>df.select(*names)\<close>\<close>
  "select df names =
     bind_pure (resolve_all df names) (\<lambda>js.
     Inr \<lparr>schema = map (\<lambda>j. schema df ! j) js, rows = map (\<lambda>r. map (cell_at r) js) (rows df)\<rparr>)"

definition save_csv :: "environment \<Rightarrow> dataframe \<Rightarrow> path \<Rightarrow> unit io" where
  "save_csv E df output_file = (\<lambda>w.
     case write_csv E df output_file of
       Some e \<Rightarrow> (Inl e, w)
     | None \<Rightarrow> (Inr (), w\<lparr>csv_files := (csv_files w)(output_file \<mapsto> df)\<rparr>))"

definition save_segmented_customers :: "environment \<Rightarrow> dataframe \<Rightarrow> string \<Rightarrow> string \<Rightarrow> string \<Rightarrow> unit io" where
  "save_segmented_customers E df rdir jid sdir =
     io_bind (log_progress E jid sdir ''saving'' 98 ''Saving segmented customers'') (\<lambda>_.
     let output_cols = [if ''customerid'' \<in> set (columns df) then ''customerid'' else ''id'',
                        ''age'', ''spend'', ''recency'', ''frequency'', ''cluster''];
         available_cols = filter (\<lambda>c. c \<in> set (columns df)) output_cols
     in io_bind (io_lift (select df available_cols)) (\<lambda>output_df.
        save_csv E output_df (rdir, ''segments.csv'')))"

subsection \<open>The orchestrator: \<^verbatim>\<open>run_segmentation_pipeline\<close>\<close>

record pipeline_result =
  res_job_id :: string
  status :: string
  rows_processed :: "nat option"
  res_clusters :: "int option"
  silhouette_score :: "real option"
  error :: "string option"

text \<open>
  The two dictionaries the entry point returns are one record: \<open>rows_processed\<close>,
  \<open>res_clusters\<close> and \<open>silhouette_score\<close> are present for \<^verbatim>\<open>'completed'\<close>, \<open>error\<close> for
  \<^verbatim>\<open>'error'\<close>.
\<close>

definition pipeline_try ::
  "environment \<Rightarrow> string \<Rightarrow> string \<Rightarrow> string \<Rightarrow> string \<Rightarrow> int \<Rightarrow> pipeline_result io" where
  \<comment> \<open>the \<^verbatim>\<open>try\<close> block, lines 435 to 509\<close>
  "pipeline_try E jid filepath rdir sdir k =
     io_bind (io_lift (case get_or_create E of Some e \<Rightarrow> Inl e | None \<Rightarrow> Inr ())) (\<lambda>_.
     io_bind (log_progress E jid sdir ''loading'' 10 ''Loading CSV file'') (\<lambda>_.
     io_bind (io_lift (read_csv E filepath)) (\<lambda>df0.
     let row_count = length (rows df0)
     in io_bind (log_progress E jid sdir ''loading'' 20
                   (''Loaded '' @ str_nat row_count @ '' records'')) (\<lambda>_.
     io_bind (preprocess_data E df0 jid sdir) (\<lambda>df1.
     io_bind (feature_engineering E df1 jid sdir) (\<lambda>df2.
     io_bind (create_feature_vector E df2 jid sdir) (\<lambda>df3.
     io_bind (scale_features E df3 jid sdir) (\<lambda>df4.
     io_bind (perform_clustering E df4 k jid sdir) (\<lambda>(df5, model, score).
     io_bind (generate_segment_profiles E df5 rdir jid sdir) (\<lambda>segment_profiles.
     io_bind (generate_chart_data E df5 rdir jid sdir) (\<lambda>chart.
     io_bind (save_segmented_customers E df5 rdir jid sdir) (\<lambda>_.
     io_bind (log_progress E jid sdir ''completed'' 100 ''Segmentation completed successfully'') (\<lambda>_.
     io_bind (io_lift (case spark_stop E of Some e \<Rightarrow> Inl e | None \<Rightarrow> Inr ())) (\<lambda>_.
     io_return \<lparr>res_job_id = jid, status = ''completed'', rows_processed = Some row_count,
                res_clusters = Some k, silhouette_score = Some score, error = None\<rparr>))))))))))))))"

definition run_segmentation_pipeline ::
  "environment \<Rightarrow> string \<Rightarrow> string \<Rightarrow> string \<Rightarrow> string \<Rightarrow> int \<Rightarrow> pipeline_result io" where
  "run_segmentation_pipeline E jid filepath rdir sdir k =
     try_except (pipeline_try E jid filepath rdir sdir k) (\<lambda>e.
       let error_msg = str_exc e
       in io_bind (log_progress E jid sdir ''error'' 0 (''Error: '' @ error_msg)) (\<lambda>_.
          io_return \<lparr>res_job_id = jid, status = ''error'', rows_processed = None,
                     res_clusters = None, silhouette_score = None, error = Some error_msg\<rparr>))"

subsection \<open>The job runner of \<^verbatim>\<open>app.py\<close>: \<^verbatim>\<open>run_spark_job_async\<close>, \<^verbatim>\<open>run_job\<close>\<close>

definition run_spark_job_async :: "environment \<Rightarrow> string \<Rightarrow> string \<Rightarrow> string \<Rightarrow> unit io" where
  \<comment> \<open>the pipeline is called with its default \<^verbatim>\<open>k=4\<close>; \<^verbatim>\<open>time.sleep\<close> is left out\<close>
  "run_spark_job_async E jid filepath filename =
     try_except
       (io_bind (update_job_status E jid ''initializing'' 5 ''Starting job...'') (\<lambda>_.
        io_bind (run_segmentation_pipeline E jid filepath (RESULTS_DIR E) (STATUS_DIR E) 4) (\<lambda>results.
        update_job_status E jid ''completed'' 100 ''Job completed successfully'')))
       (\<lambda>e. update_job_status E jid ''error'' 0 (''Error: '' @ str_exc e))"

definition thread_start :: "unit io \<Rightarrow> unit io" where
  \<comment> \<open>the job's thread, run to its end; an exception that ends the thread reaches nobody\<close>
  "thread_start m = (\<lambda>w. (Inr (), snd (m w)))"

definition run_job :: "environment \<Rightarrow> string \<Rightarrow> string \<Rightarrow> string \<Rightarrow> nat io" where
  \<comment> \<open>\<^verbatim>\<open>POST /run-job\<close> from line 172 on, for an uploaded file and the fresh job identifier
      \<open>jid\<close>; the result is the HTTP status code\<close>
  "run_job E jid filepath filename =
     try_except
       (io_bind (update_job_status E jid ''queued'' 0 ''Job queued for processing'') (\<lambda>_.
        io_bind (thread_start (run_spark_job_async E jid filepath filename)) (\<lambda>_.
        io_return 200)))
       (\<lambda>e. io_return 500)"

subsection \<open>A sample environment\<close>

text \<open>
  A concrete environment for evaluating the pipeline on small inputs: a file system in
  which every file can be written, three uploaded files, and stand-ins for the Spark
  and Python library calls. Aggregates are computed over the numeric values of a
  column, except the standard deviation, which the code never reads. The KMeans stand-in takes the first \<open>k\<close> distinct feature vectors as centres
  and assigns every row to its nearest centre, without iterating: that is a fixed point
  of Lloyd's algorithm when the table has at most \<open>k\<close> distinct points, as in the samples.
\<close>

definition customers_csv :: dataframe where
  \<comment> \<open>the two customers of the scenario of the specification\<close>
  "customers_csv =
     \<lparr>schema = [(''Age'', IntegerType), (''Spend'', IntegerType), (''Recency'', IntegerType),
                (''Frequency'', IntegerType)],
      rows = [[IntV 25, IntV 500, IntV 10, IntV 5], [IntV 60, IntV 2000, IntV 2, IntV 20]]\<rparr>"

definition no_recency_csv :: dataframe where
  "no_recency_csv =
     \<lparr>schema = [(''Age'', IntegerType), ('' Spend '', IntegerType), (''Frequency'', IntegerType)],
      rows = [[IntV 25, IntV 500, IntV 5], [IntV 60, IntV 2000, IntV 20]]\<rparr>"

definition text_age_csv :: dataframe where
  \<comment> \<open>the age of the first customer is not a number, so Spark infers a text column\<close>
  "text_age_csv =
     \<lparr>schema = [(''age'', StringType), (''spend'', IntegerType), (''recency'', IntegerType),
                (''frequency'', IntegerType)],
      rows = [[StrV ''abc'', IntV 100, IntV 5, IntV 2], [StrV ''25'', IntV 200, IntV 3, IntV 4]]\<rparr>"

definition sample_parse :: "string \<Rightarrow> real option" where
  \<comment> \<open>the texts of the samples that are numbers\<close>
  "sample_parse s = map_of [(''25'', 25), (''60'', 60)] s"

definition numbers :: "cell list \<Rightarrow> real list" where
  "numbers cs =
     concat (map (\<lambda>c. case c of IntV i \<Rightarrow> [of_int i] | DblV x \<Rightarrow> [x]
                        | StrV s \<Rightarrow> (case sample_parse s of Some x \<Rightarrow> [x] | None \<Rightarrow> [])
                        | _ \<Rightarrow> []) cs)"

definition sample_median :: "cell list \<Rightarrow> real option" where
  "sample_median cs =
     (let xs = sort (numbers cs); n = length xs
      in if n = 0 then None
         else if odd n then Some (xs ! (n div 2))
         else Some ((xs ! (n div 2 - 1) + xs ! (n div 2)) / 2))"

definition sample_avg :: "cell list \<Rightarrow> real option" where
  "sample_avg cs =
     (let xs = numbers cs in if xs = [] then None else Some (sum_list xs / of_nat (length xs)))"

definition sample_min :: "cell list \<Rightarrow> cell" where
  "sample_min cs = (case numbers cs of [] \<Rightarrow> Null | x # xs \<Rightarrow> DblV (fold min xs x))"

definition sample_max :: "cell list \<Rightarrow> cell" where
  "sample_max cs = (case numbers cs of [] \<Rightarrow> Null | x # xs \<Rightarrow> DblV (fold max xs x))"

definition round_half_even :: "real \<Rightarrow> int" where
  "round_half_even y =
     (let f = \<lfloor>y\<rfloor>; d = y - of_int f
      in if d < 1 / 2 then f else if 1 / 2 < d then f + 1 else if even f then f else f + 1)"

definition sample_round :: "real \<Rightarrow> nat \<Rightarrow> real" where
  "sample_round x n = of_int (round_half_even (x * 10 ^ n)) / 10 ^ n"

definition sample_assemble :: "dataframe \<Rightarrow> py_exception + dataframe" where
  "sample_assemble df =
     bind_pure (resolve_all df [''age'', ''spend'', ''recency'', ''frequency'']) (\<lambda>js.
       if \<exists>r \<in> set (rows df). \<exists>j \<in> set js. cell_at r j = Null
       then Inl (SparkError ''Encountered null while assembling a row'')
       else Inr (withColumn df ''features'' VectorType
                   (\<lambda>r. VecV (concat (map (\<lambda>j. numbers [cell_at r j]) js)))))"

definition sample_scaler :: "dataframe \<Rightarrow> py_exception + dataframe" where
  \<comment> \<open>a stand-in: the scaled vector is the vector itself\<close>
  "sample_scaler df =
     bind_pure (resolve df ''features'') (\<lambda>j.
       Inr (withColumn df ''scaled_features'' VectorType (\<lambda>r. cell_at r j)))"

definition vectors :: "dataframe \<Rightarrow> nat \<Rightarrow> real list list" where
  "vectors df j = concat (map (\<lambda>c. case c of VecV v \<Rightarrow> [v] | _ \<Rightarrow> []) (column_cells df j))"

definition sample_kmeans_fit :: "int \<Rightarrow> dataframe \<Rightarrow> py_exception + kmeans_model" where
  "sample_kmeans_fit k df =
     (if k \<le> 1 then Inl (SparkError ''KMeans parameter k given invalid value'')
      else bind_pure (resolve df ''scaled_features'') (\<lambda>j.
             Inr (take (nat k) (rev (remdups (rev (vectors df j)))))))"

definition sq_dist :: "real list \<Rightarrow> real list \<Rightarrow> real" where
  "sq_dist u v = sum_list (map (\<lambda>(a, b). (a - b)\<^sup>2) (zip u v))"

fun nearest :: "real list list \<Rightarrow> real list \<Rightarrow> nat" where
  "nearest [] v = 0"
| "nearest [c] v = 0"
| "nearest (c # d # cs) v =
     (let j = Suc (nearest (d # cs) v)
      in if sq_dist c v \<le> sq_dist ((c # d # cs) ! j) v then 0 else j)"

definition sample_kmeans_transform :: "kmeans_model \<Rightarrow> dataframe \<Rightarrow> py_exception + dataframe" where
  "sample_kmeans_transform centres df =
     bind_pure (resolve df ''scaled_features'') (\<lambda>j.
       Inr (withColumn df ''cluster'' IntegerType
              (\<lambda>r. case cell_at r j of VecV v \<Rightarrow> IntV (int (nearest centres v)) | _ \<Rightarrow> Null)))"

definition sample_env :: environment where
  "sample_env =
     \<lparr>STATUS_DIR = ''status'',
      RESULTS_DIR = ''results'',
      fs_open = (\<lambda>w p. None),
      get_or_create = None,
      read_csv = (\<lambda>p. case map_of [(''uploads/customers.csv'', customers_csv),
                                     (''uploads/no_recency.csv'', no_recency_csv),
                                     (''uploads/text_age.csv'', text_age_csv)] p of
                         Some df \<Rightarrow> Inr df
                       | None \<Rightarrow> Inl (SparkError ''Path does not exist'')),
      parse_double = sample_parse,
      double_to_string = (\<lambda>x. ''?''),
      median_of = sample_median,
      stddev_of = (\<lambda>cs. None),
      avg_of = sample_avg,
      min_of = sample_min,
      max_of = sample_max,
      python_float = sample_parse,
      python_int = (\<lambda>s. None),
      python_round = sample_round,
      format_4f = (\<lambda>x. ''0.0000''),
      assemble_and_show = sample_assemble,
      standard_scaler = sample_scaler,
      kmeans_fit = sample_kmeans_fit,
      kmeans_transform = sample_kmeans_transform,
      evaluate = (\<lambda>m. Inr 0),
      chart_data_of = (\<lambda>df. Inr ''{}''),
      write_csv = (\<lambda>df p. None),
      spark_stop = None\<rparr>"

definition world0 :: world where
  \<comment> \<open>nothing written yet\<close>
  "world0 = \<lparr>status_files = Map.empty, jobs = Map.empty, profile_files = Map.empty,
             chart_files = Map.empty, csv_files = Map.empty, status_writes = []\<rparr>"

definition unwritable_env :: environment where
  \<comment> \<open>the sample environment with a status directory that does not exist\<close>
  "unwritable_env =
     sample_env\<lparr>fs_open := (\<lambda>w p. if fst p = ''missing_dir''
                                   then Some (OSError ''No such file or directory'') else None)\<rparr>"

definition luxury_row :: stats_row where
  \<comment> \<open>the aggregates of a cluster that holds the second sample customer alone\<close>
  "luxury_row =
     \<lparr>r_cluster = IntV 1, r_size = 1, avg_age = Some 60, avg_spend = Some 2000,
      avg_recency = Some 2, avg_frequency = Some 20, min_spend = DblV 2000, max_spend = DblV 2000\<rparr>"




definition preprocessed_customers :: dataframe where
  "preprocessed_customers =
     \<lparr>schema = [(''age'', DoubleType), (''spend'', DoubleType), (''recency'', DoubleType),
                (''frequency'', DoubleType)],
      rows = [[DblV 25, DblV 500, DblV 10, DblV 5], [DblV 60, DblV 2000, DblV 2, DblV 20]]\<rparr>"

definition preprocessed_text_age :: dataframe where
  \<comment> \<open>the first row has no age\<close>
  "preprocessed_text_age =
     \<lparr>schema = [(''age'', DoubleType), (''spend'', DoubleType), (''recency'', DoubleType),
                (''frequency'', DoubleType)],
      rows = [[Null, DblV 100, DblV 5, DblV 2], [DblV 25, DblV 200, DblV 3, DblV 4]]\<rparr>"

subsection \<open>The label rule in the words of the specification\<close>

definition spec_label :: "real \<Rightarrow> real \<Rightarrow> real \<Rightarrow> string" where
  \<comment> \<open>the priority rule of section 4.6, on the means of spend, age and frequency\<close>
  "spec_label spend_mean age_mean frequency_mean =
     (if spend_mean > 1500 \<and> age_mean > 55 then ''Luxury Segment''
      else if spend_mean > 1500 then ''Premium Customers''
      else if spend_mean > 900 then ''Regular Shoppers''
      else if frequency_mean < 3 then ''Budget Conscious''
      else ''Emerging Customers'')"

subsection \<open>Vocabulary of the properties\<close>

definition absent_required :: "string list \<Rightarrow> string list" where
  \<comment> \<open>the required names that are absent from the given column names after trimming and
      lowercasing, in the order age, spend, recency, frequency\<close>
  "absent_required cols = filter (\<lambda>c. c \<notin> set (map normalize_name cols)) required"

definition rename_step :: "string \<Rightarrow> string \<Rightarrow> string" where
  \<comment> \<open>what one round of the loop of \<^verbatim>\<open>normalize_dataframe\<close>, for the column \<open>c\<close>, does to a
      column named \<open>y\<close>\<close>
  "rename_step y c = (if c \<noteq> normalize_name c \<and> same_name y c then normalize_name c else y)"



definition stage_progress :: "path \<times> status_record \<Rightarrow> string \<times> int" where
  "stage_progress pr = (stage (snd pr), progress (snd pr))"

definition new_writes :: "world \<Rightarrow> world \<Rightarrow> (path \<times> status_record) list" where
  \<comment> \<open>the status records written between two worlds\<close>
  "new_writes w w' = drop (length (status_writes w)) (status_writes w')"

definition emits :: "'a io \<Rightarrow> (string \<times> int) list \<Rightarrow> bool" where
  \<comment> \<open>the computation writes the stages and progress values of the script in order: all of
      them when it returns, a prefix when it raises\<close>
  "emits m ss \<longleftrightarrow>
     (\<forall>w. \<exists>n\<le>length ss.
        status_writes (snd (m w)) = status_writes w @ new_writes w (snd (m w)) \<and>
        map stage_progress (new_writes w (snd (m w))) = take n ss \<and>
        (isl (fst (m w)) \<or> n = length ss))"

definition pipeline_script :: "(string \<times> int) list" where
  "pipeline_script =
     [(''loading'', 10), (''loading'', 20), (''preprocessing'', 25), (''preprocessing'', 30),
      (''feature_engineering'', 40), (''feature_engineering'', 50), (''vectorization'', 55),
      (''vectorization'', 60), (''scaling'', 65), (''scaling'', 70), (''clustering'', 75),
      (''clustering'', 85), (''profiling'', 90), (''visualization'', 95), (''saving'', 98),
      (''completed'', 100)]"

definition heartbeat :: "(string \<times> int) list" where
  \<comment> \<open>the non-terminal states of section 4.7 with their progress values\<close>
  "heartbeat =
     [(''queued'', 0), (''initializing'', 5),
      (''loading'', 10), (''loading'', 20), (''preprocessing'', 25), (''preprocessing'', 30),
      (''feature_engineering'', 40), (''feature_engineering'', 50), (''vectorization'', 55),
      (''vectorization'', 60), (''scaling'', 65), (''scaling'', 70), (''clustering'', 75),
      (''clustering'', 85), (''profiling'', 90), (''visualization'', 95), (''saving'', 98)]"

definition tail_ok :: "(string \<times> int) list \<Rightarrow> bool" where
  "tail_ok t \<longleftrightarrow> t = [] \<or> fst (hd t) = ''error'' \<or> hd t = (''completed'', 100)"

definition tails :: "(string \<times> int) list \<Rightarrow> bool" where
  "tails t \<longleftrightarrow> t = [] \<or> t = [(''error'', 0)] \<or> t = [(''completed'', 100)]"

definition shape :: "(string \<times> int) list \<Rightarrow> (string \<times> int) list \<Rightarrow> bool" where
  \<comment> \<open>a prefix of the script, followed by nothing or by writes that begin with a terminal one\<close>
  "shape H ks \<longleftrightarrow> (\<exists>n rest. ks = take n H @ rest \<and> tail_ok rest)"

definition shaped :: "'a io \<Rightarrow> (string \<times> int) list \<Rightarrow> bool" where
  "shaped m H \<longleftrightarrow>
     (\<forall>w. \<exists>ws. status_writes (snd (m w)) = status_writes w @ ws \<and> shape H (map stage_progress ws))"

definition terminal_stage :: "string \<Rightarrow> bool" where
  "terminal_stage s \<longleftrightarrow> s = ''completed'' \<or> s = ''error''"

definition until_terminal :: "status_record list \<Rightarrow> status_record list" where
  \<comment> \<open>the records before the first terminal record, and that record too when it is
      \<^verbatim>\<open>completed\<close> (an \<^verbatim>\<open>error\<close> record carries progress 0 in the state machine)\<close>
  "until_terminal rs =
     takeWhile (\<lambda>r. \<not> terminal_stage (stage r)) rs @
     filter (\<lambda>r. stage r = ''completed'') (take 1 (dropWhile (\<lambda>r. \<not> terminal_stage (stage r)) rs))"

definition job_writes :: "environment \<Rightarrow> string \<Rightarrow> string \<Rightarrow> string \<Rightarrow> world \<Rightarrow> status_record list" where
  \<comment> \<open>the status records of one job, from its submission on, in the order written\<close>
  "job_writes E jid filepath filename w =
     map snd (new_writes w (snd (run_job E jid filepath filename w)))"

section \<open>Properties\<close>

subsection \<open>Reading results of computations\<close>

lemma bind_pure_Inr_iff: "bind_pure r f = Inr y \<longleftrightarrow> (\<exists>x. r = Inr x \<and> f x = Inr y)"
  by (cases r) (simp_all add: bind_pure_def)

lemma float_opt_Inr_iff: "float_opt m = Inr x \<longleftrightarrow> m = Some x"
  by (cases m) simp_all

lemma io_bind_Inr:
  "io_bind m f w = (Inr y, w') \<longleftrightarrow> (\<exists>x w1. m w = (Inr x, w1) \<and> f x w1 = (Inr y, w'))"
  by (auto simp: io_bind_def split: prod.splits sum.splits)

lemma io_lift_Inr: "io_lift r w = (Inr y, w') \<longleftrightarrow> r = Inr y \<and> w' = w"
  by (auto simp: io_lift_def)

lemma io_return_Inr: "io_return x w = (Inr y, w') \<longleftrightarrow> y = x \<and> w' = w"
  by (auto simp: io_return_def)

lemma fst_eq_Inr: "fst p = Inr y \<longleftrightarrow> (\<exists>w'. p = (Inr y, w'))"
  by (cases p) simp

subsection \<open>Column names\<close>

lemma lower_char_cases:
  "lower_char c = c \<or>
   (c \<in> set ''ABCDEFGHIJKLMNOPQRSTUVWXYZ'' \<and> lower_char c \<in> set ''abcdefghijklmnopqrstuvwxyz'')"
  by (simp add: lower_char_def)

lemma letters_not_space:
  "c \<in> set ''ABCDEFGHIJKLMNOPQRSTUVWXYZ'' \<union> set ''abcdefghijklmnopqrstuvwxyz'' \<Longrightarrow> \<not> is_space c"
  by (auto simp: is_space_def)

lemma lower_not_upper:
  "c \<in> set ''abcdefghijklmnopqrstuvwxyz'' \<Longrightarrow> c \<notin> set ''ABCDEFGHIJKLMNOPQRSTUVWXYZ''"
  by auto

lemma lower_char_lower:
  assumes "c \<in> set ''abcdefghijklmnopqrstuvwxyz''"
  shows "lower_char c = c"
proof -
  have "map_of (zip ''ABCDEFGHIJKLMNOPQRSTUVWXYZ'' ''abcdefghijklmnopqrstuvwxyz'') c = None"
    using lower_not_upper [OF assms] by (subst map_of_zip_is_None) simp_all
  then show ?thesis
    by (simp only: lower_char_def option.case)
qed

lemma is_space_lower_char: "is_space (lower_char c) = is_space c"
  using lower_char_cases [of c] letters_not_space [of c] letters_not_space [of "lower_char c"]
  by (elim disjE conjE) (simp_all only: Un_iff simp_thms)

lemma lower_char_idem: "lower_char (lower_char c) = lower_char c"
  using lower_char_cases [of c] lower_char_lower [of "lower_char c"]
  by (elim disjE conjE) (simp_all only: simp_thms)

lemma str_lower_idem: "str_lower (str_lower s) = str_lower s"
  by (simp add: str_lower_def lower_char_idem)

lemma str_strip_lower: "str_strip (str_lower s) = str_lower (str_strip s)"
proof -
  have c: "is_space \<circ> lower_char = is_space"
    by (rule ext) (simp add: is_space_lower_char)
  show ?thesis
    by (simp add: str_strip_def str_lower_def dropWhile_map rev_map c)
qed

lemma str_strip_idem: "str_strip (str_strip s) = str_strip s"
proof -
  define t where "t = dropWhile is_space s"
  define u where "u = rev (dropWhile is_space (rev t))"
  have "dropWhile is_space u = u"
  proof (cases "u = []")
    case True
    then show ?thesis by simp
  next
    case False
    then have t: "t \<noteq> []" by (auto simp: u_def)
    then have h: "\<not> is_space (hd t)"
      unfolding t_def by (rule hd_dropWhile)
    have "rev t = takeWhile is_space (rev t) @ dropWhile is_space (rev t)"
      by simp
    then have "rev (rev t) = rev (takeWhile is_space (rev t) @ dropWhile is_space (rev t))"
      by (rule arg_cong)
    then have "t = u @ rev (takeWhile is_space (rev t))"
      by (simp only: rev_rev_ident rev_append u_def)
    with False have "hd u = hd t"
      by (metis hd_append2)
    with h False show ?thesis
      by (simp add: dropWhile_eq_self_iff)
  qed
  then show ?thesis
    by (simp add: str_strip_def u_def t_def)
qed

lemma normalize_name_idem: "normalize_name (normalize_name s) = normalize_name s"
  by (simp add: normalize_name_def str_strip_lower str_strip_idem str_lower_idem)

lemma same_name_normalize: "same_name a b \<Longrightarrow> normalize_name a = normalize_name b"
  by (simp add: normalize_name_def same_name_def flip: str_strip_lower)

lemma normalize_rename_step: "normalize_name (rename_step y c) = normalize_name y"
  by (auto simp: rename_step_def normalize_name_idem dest: same_name_normalize)

lemma normalize_foldl_rename_step: "normalize_name (foldl rename_step y cs) = normalize_name y"
  by (induction cs arbitrary: y) (simp_all add: normalize_rename_step)

lemma columns_withColumnRenamed:
  "columns (withColumnRenamed d a b) = map (\<lambda>x. if same_name x a then b else x) (columns d)"
  by (auto simp: columns_def withColumnRenamed_def)

lemma columns_normalize_loop:
  "columns (foldl (\<lambda>d c. if c \<noteq> normalize_name c then withColumnRenamed d c (normalize_name c) else d) d cs)
     = map (\<lambda>y. foldl rename_step y cs) (columns d)"
proof (induction cs arbitrary: d)
  case Nil
  then show ?case by simp
next
  case (Cons c cs)
  have "columns (if c \<noteq> normalize_name c then withColumnRenamed d c (normalize_name c) else d)
          = map (\<lambda>y. rename_step y c) (columns d)"
    by (simp add: columns_withColumnRenamed rename_step_def)
  then show ?case
    by (simp add: Cons.IH)
qed

lemma get_column_names_normalize_dataframe:
  "get_column_names (normalize_dataframe df) = map normalize_name (columns df)"
  by (simp add: get_column_names_def normalize_dataframe_def Let_def columns_normalize_loop
      normalize_foldl_rename_step)

lemma validate_normalized:
  "validate_required_columns (normalize_dataframe df) =
     (if absent_required (columns df) \<noteq> []
      then Inl (ValueError (''Missing required columns: '' @ repr_str_list (absent_required (columns df))))
      else Inr True)"
  by (simp add: validate_required_columns_def get_column_names_normalize_dataframe
      absent_required_def Let_def)

subsection \<open>Preprocessing raises a \<^verbatim>\<open>ValueError\<close> only for missing columns\<close>












lemma preprocess_cleaning_cases:
  "preprocess_cleaning E df =
     (if absent_required (columns df) \<noteq> []
      then Inl (ValueError (''Missing required columns: '' @ repr_str_list (absent_required (columns df))))
      else bind_pure (fill_missing E (normalize_dataframe df) numeric_cols) (\<lambda>df2.
           bind_pure (dropna df2 numeric_cols) (\<lambda>df3. cast_columns E df3 numeric_cols)))"
  by (simp add: preprocess_cleaning_def Let_def validate_normalized bind_pure_def)




lemma normalize_samples:
  "normalize_name ''Age'' = ''age''" "normalize_name '' Spend '' = ''spend''"
  "normalize_name ''Frequency'' = ''frequency''"
  by code_simp+

lemma absent_no_recency: "absent_required (columns no_recency_csv) = [''recency'']"
  by (simp add: absent_required_def columns_def no_recency_csv_def required_def normalize_samples)


subsection \<open>The status records a job writes\<close>

lemma emitsI:
  assumes "\<And>w. \<exists>n\<le>length ss. \<exists>ws. status_writes (snd (m w)) = status_writes w @ ws \<and>
             map stage_progress ws = take n ss \<and> (isl (fst (m w)) \<or> n = length ss)"
  shows "emits m ss"
  unfolding emits_def new_writes_def
proof
  fix w
  from assms [of w] obtain n ws where "n \<le> length ss"
    "status_writes (snd (m w)) = status_writes w @ ws"
    "map stage_progress ws = take n ss" "isl (fst (m w)) \<or> n = length ss"
    by blast
  then show "\<exists>n\<le>length ss.
            status_writes (snd (m w)) =
            status_writes w @ drop (length (status_writes w)) (status_writes (snd (m w))) \<and>
            map stage_progress (drop (length (status_writes w)) (status_writes (snd (m w)))) =
            take n ss \<and>
            (isl (fst (m w)) \<or> n = length ss)"
    by (intro exI [of _ n]) simp
qed

lemma emitsD:
  assumes "emits m ss"
  obtains n ws where "n \<le> length ss" "status_writes (snd (m w)) = status_writes w @ ws"
    "map stage_progress ws = take n ss" "isl (fst (m w)) \<or> n = length ss"
  using assms unfolding emits_def by blast

lemma emits_return: "emits (io_return x) []"
  by (rule emitsI) (simp add: io_return_def)

lemma emits_lift: "emits (io_lift r) []"
  by (rule emitsI) (simp add: io_lift_def)

lemma emits_log: "emits (log_progress E jid sdir stg prog msg) [(stg, prog)]"
proof (rule emitsI)
  fix w
  show "\<exists>n\<le>length [(stg, prog)]. \<exists>ws.
          status_writes (snd (log_progress E jid sdir stg prog msg w)) = status_writes w @ ws \<and>
          map stage_progress ws = take n [(stg, prog)] \<and>
          (isl (fst (log_progress E jid sdir stg prog msg w)) \<or> n = length [(stg, prog)])"
  proof (cases "fs_open E w (sdir, jid @ ''.json'')")
    case None
    then show ?thesis
      by (intro exI [of _ 1]) (simp add: log_progress_def Let_def stage_progress_def)
  next
    case (Some e)
    then show ?thesis
      by (intro exI [of _ 0]) (simp add: log_progress_def Let_def)
  qed
qed

lemma emits_update: "emits (update_job_status E jid stg prog msg) [(stg, prog)]"
proof (rule emitsI)
  fix w
  show "\<exists>n\<le>length [(stg, prog)]. \<exists>ws.
          status_writes (snd (update_job_status E jid stg prog msg w)) = status_writes w @ ws \<and>
          map stage_progress ws = take n [(stg, prog)] \<and>
          (isl (fst (update_job_status E jid stg prog msg w)) \<or> n = length [(stg, prog)])"
  proof (cases "fs_open E (w\<lparr>jobs := (jobs w)(jid \<mapsto>
                  \<lparr>job_id = jid, stage = stg, progress = prog, message = msg\<rparr>)\<rparr>)
                  (STATUS_DIR E, jid @ ''.json'')")
    case None
    then show ?thesis
      by (intro exI [of _ 1]) (simp add: update_job_status_def Let_def stage_progress_def)
  next
    case (Some e)
    then show ?thesis
      by (intro exI [of _ 0]) (simp add: update_job_status_def Let_def)
  qed
qed

lemma emits_bind:
  assumes m: "emits m s1" and f: "\<And>x. emits (f x) s2"
  shows "emits (io_bind m f) (s1 @ s2)"
proof (rule emitsI)
  fix w
  obtain n ws where n: "n \<le> length s1" "status_writes (snd (m w)) = status_writes w @ ws"
    "map stage_progress ws = take n s1" "isl (fst (m w)) \<or> n = length s1"
    using m by (rule emitsD)
  show "\<exists>k\<le>length (s1 @ s2). \<exists>vs. status_writes (snd (io_bind m f w)) = status_writes w @ vs \<and>
          map stage_progress vs = take k (s1 @ s2) \<and>
          (isl (fst (io_bind m f w)) \<or> k = length (s1 @ s2))"
  proof (cases "m w")
    case (Pair r w1)
    show ?thesis
    proof (cases r)
      case (Inl e)
      with Pair n show ?thesis
        by (intro exI [of _ n] exI [of _ ws]) (simp add: io_bind_def)
    next
      case (Inr x)
      obtain j vs where j: "j \<le> length s2" "status_writes (snd (f x w1)) = status_writes w1 @ vs"
        "map stage_progress vs = take j s2" "isl (fst (f x w1)) \<or> j = length s2"
        using f [of x] by (rule emitsD)
      from Pair Inr n have full: "n = length s1" by simp
      with Pair Inr n j show ?thesis
        by (intro exI [of _ "length s1 + j"] exI [of _ "ws @ vs"]) (simp add: io_bind_def)
    qed
  qed
qed

lemma emits_file_writes:
  "emits (write_profiles E p x) []" "emits (write_chart E p c) []" "emits (save_csv E df p) []"
  by (rule emitsI; simp add: write_profiles_def write_chart_def save_csv_def split: option.splits)+

lemmas emits_steps = emits_bind emits_log emits_lift emits_return emits_file_writes

lemma emits_preprocess_data:
  "emits (preprocess_data E df jid sdir) [(''preprocessing'', 25), (''preprocessing'', 30)]"
proof -
  have "emits (preprocess_data E df jid sdir)
          ([(''preprocessing'', 25)] @ [] @ [] @ [(''preprocessing'', 30)] @ [])"
    unfolding preprocess_data_def by (intro emits_steps)
  then show ?thesis by simp
qed

lemma emits_feature_engineering:
  "emits (feature_engineering E df jid sdir) [(''feature_engineering'', 40), (''feature_engineering'', 50)]"
proof -
  have "emits (feature_engineering E df jid sdir)
          ([(''feature_engineering'', 40)] @ [] @ [(''feature_engineering'', 50)] @ [])"
    unfolding feature_engineering_def by (intro emits_steps)
  then show ?thesis by simp
qed

lemma emits_create_feature_vector:
  "emits (create_feature_vector E df jid sdir) [(''vectorization'', 55), (''vectorization'', 60)]"
proof -
  have "emits (create_feature_vector E df jid sdir)
          ([(''vectorization'', 55)] @ [] @ [(''vectorization'', 60)] @ [])"
    unfolding create_feature_vector_def by (intro emits_steps)
  then show ?thesis by simp
qed

lemma emits_scale_features:
  "emits (scale_features E df jid sdir) [(''scaling'', 65), (''scaling'', 70)]"
proof -
  have "emits (scale_features E df jid sdir) ([(''scaling'', 65)] @ [] @ [(''scaling'', 70)] @ [])"
    unfolding scale_features_def by (intro emits_steps)
  then show ?thesis by simp
qed

lemma emits_perform_clustering:
  "emits (perform_clustering E df k jid sdir) [(''clustering'', 75), (''clustering'', 85)]"
proof -
  have "emits (perform_clustering E df k jid sdir)
          ([(''clustering'', 75)] @ [] @ [] @ [] @ [(''clustering'', 85)] @ [])"
    unfolding perform_clustering_def by (intro emits_steps)
  then show ?thesis by simp
qed

lemma emits_generate_segment_profiles:
  "emits (generate_segment_profiles E df rdir jid sdir) [(''profiling'', 90)]"
proof -
  have "emits (generate_segment_profiles E df rdir jid sdir)
          ([(''profiling'', 90)] @ [] @ [] @ [] @ [])"
    unfolding generate_segment_profiles_def Let_def case_prod_beta by (intro emits_steps)
  then show ?thesis by simp
qed

lemma emits_generate_chart_data:
  "emits (generate_chart_data E df rdir jid sdir) [(''visualization'', 95)]"
proof -
  have "emits (generate_chart_data E df rdir jid sdir) ([(''visualization'', 95)] @ [] @ [] @ [])"
    unfolding generate_chart_data_def by (intro emits_steps)
  then show ?thesis by simp
qed

lemma emits_save_segmented_customers:
  "emits (save_segmented_customers E df rdir jid sdir) [(''saving'', 98)]"
proof -
  have "emits (save_segmented_customers E df rdir jid sdir) ([(''saving'', 98)] @ [] @ [])"
    unfolding save_segmented_customers_def Let_def by (intro emits_steps)
  then show ?thesis by simp
qed

lemma emits_pipeline_try: "emits (pipeline_try E jid filepath rdir sdir k) pipeline_script"
proof -
  have "emits (pipeline_try E jid filepath rdir sdir k)
          ([] @ [(''loading'', 10)] @ [] @ [(''loading'', 20)] @
           [(''preprocessing'', 25), (''preprocessing'', 30)] @
           [(''feature_engineering'', 40), (''feature_engineering'', 50)] @
           [(''vectorization'', 55), (''vectorization'', 60)] @
           [(''scaling'', 65), (''scaling'', 70)] @
           [(''clustering'', 75), (''clustering'', 85)] @
           [(''profiling'', 90)] @ [(''visualization'', 95)] @ [(''saving'', 98)] @
           [(''completed'', 100)] @ [] @ [])"
    unfolding pipeline_try_def Let_def case_prod_beta
    by (intro emits_steps emits_preprocess_data emits_feature_engineering
        emits_create_feature_vector emits_scale_features emits_perform_clustering
        emits_generate_segment_profiles emits_generate_chart_data emits_save_segmented_customers)
  then show ?thesis by (simp add: pipeline_script_def)
qed

lemma tail_ok_take: "tails t \<Longrightarrow> tail_ok (take j t)"
  by (cases j) (auto simp: tails_def tail_ok_def)

lemma shape_append_tail: "shape H ks \<Longrightarrow> tail_ok t \<Longrightarrow> shape H (ks @ t)"
  unfolding shape_def
proof (elim exE conjE)
  fix n rest
  assume t: "tail_ok t" and ks: "ks = take n H @ rest" and r: "tail_ok rest"
  have "tail_ok (rest @ t)"
    using t r by (cases rest) (auto simp: tail_ok_def)
  with ks show "\<exists>n rest. ks @ t = take n H @ rest \<and> tail_ok rest"
    by (intro exI [of _ n] exI [of _ "rest @ t"]) simp
qed

lemma shape_Cons: "shape H ks \<Longrightarrow> shape (x # H) (x # ks)"
  unfolding shape_def
proof (elim exE conjE)
  fix n rest
  assume "ks = take n H @ rest" "tail_ok rest"
  then show "\<exists>n rest. x # ks = take n (x # H) @ rest \<and> tail_ok rest"
    by (intro exI [of _ "Suc n"] exI [of _ rest]) simp
qed

lemma shape_Nil: "shape H []"
  unfolding shape_def by (intro exI [of _ 0] exI [of _ "[]"]) (simp add: tail_ok_def)

lemma shape_take_append: "tails t \<Longrightarrow> shape H (take n (H @ t))"
  unfolding shape_def
  by (intro exI [of _ n] exI [of _ "take (n - length H) t"]) (simp add: tail_ok_take)

lemma shaped_emits:
  assumes "emits m (H @ t)" and "tails t"
  shows "shaped m H"
  unfolding shaped_def
proof
  fix w
  obtain n ws where "status_writes (snd (m w)) = status_writes w @ ws"
    "map stage_progress ws = take n (H @ t)"
    using assms(1) by (rule emitsD)
  with shape_take_append [OF assms(2)] show
    "\<exists>ws. status_writes (snd (m w)) = status_writes w @ ws \<and> shape H (map stage_progress ws)"
    by auto
qed

lemma shaped_then:
  assumes m: "shaped m H" and f: "\<And>x. emits (f x) t" and t: "tails t"
  shows "shaped (io_bind m f) H"
  unfolding shaped_def
proof
  fix w
  obtain ws where ws: "status_writes (snd (m w)) = status_writes w @ ws"
    "shape H (map stage_progress ws)"
    using m unfolding shaped_def by blast
  show "\<exists>vs. status_writes (snd (io_bind m f w)) = status_writes w @ vs \<and>
          shape H (map stage_progress vs)"
  proof (cases "m w")
    case (Pair r w1)
    show ?thesis
    proof (cases r)
      case (Inl e)
      with Pair ws show ?thesis by (auto simp: io_bind_def)
    next
      case (Inr x)
      obtain j vs where "status_writes (snd (f x w1)) = status_writes w1 @ vs"
        "map stage_progress vs = take j t"
        using f [of x] by (rule emitsD)
      with Pair Inr ws shape_append_tail [OF ws(2) tail_ok_take [OF t, of j]] show ?thesis
        by (intro exI [of _ "ws @ vs"]) (simp add: io_bind_def)
    qed
  qed
qed

lemma shaped_try:
  assumes m: "shaped m H" and h: "\<And>e. emits (h e) t" and t: "tails t"
  shows "shaped (try_except m h) H"
  unfolding shaped_def
proof
  fix w
  obtain ws where ws: "status_writes (snd (m w)) = status_writes w @ ws"
    "shape H (map stage_progress ws)"
    using m unfolding shaped_def by blast
  show "\<exists>vs. status_writes (snd (try_except m h w)) = status_writes w @ vs \<and>
          shape H (map stage_progress vs)"
  proof (cases "m w")
    case (Pair r w1)
    show ?thesis
    proof (cases r)
      case (Inr x)
      with Pair ws show ?thesis by (auto simp: try_except_def)
    next
      case (Inl e)
      obtain j vs where "status_writes (snd (h e w1)) = status_writes w1 @ vs"
        "map stage_progress vs = take j t"
        using h [of e] by (rule emitsD)
      with Pair Inl ws shape_append_tail [OF ws(2) tail_ok_take [OF t, of j]] show ?thesis
        by (intro exI [of _ "ws @ vs"]) (simp add: try_except_def)
    qed
  qed
qed

lemma shaped_after:
  assumes m: "emits m [x]" and f: "\<And>y. shaped (f y) H"
  shows "shaped (io_bind m f) (x # H)"
  unfolding shaped_def
proof
  fix w
  obtain n ws where ws: "status_writes (snd (m w)) = status_writes w @ ws"
    "map stage_progress ws = take n [x]" "isl (fst (m w)) \<or> n = length [x]"
    using m by (rule emitsD)
  show "\<exists>vs. status_writes (snd (io_bind m f w)) = status_writes w @ vs \<and>
          shape (x # H) (map stage_progress vs)"
  proof (cases "m w")
    case (Pair r w1)
    show ?thesis
    proof (cases r)
      case (Inl e)
      have "shape (x # H) (take n [x])"
        using shape_Nil [of "x # H"] shape_Cons [OF shape_Nil, of x H] by (cases n) simp_all
      with Pair Inl ws show ?thesis by (auto simp: io_bind_def)
    next
      case (Inr y)
      obtain vs where vs: "status_writes (snd (f y w1)) = status_writes w1 @ vs"
        "shape H (map stage_progress vs)"
        using f [of y] unfolding shaped_def by blast
      from Pair Inr ws have "map stage_progress ws = [x]" by simp
      with Pair Inr ws vs shape_Cons [OF vs(2), of x] show ?thesis
        by (intro exI [of _ "ws @ vs"]) (simp add: io_bind_def)
    qed
  qed
qed

lemma shaped_thread_start: "shaped m H \<Longrightarrow> shaped (thread_start m) H"
  by (simp add: shaped_def thread_start_def)

lemma tails_simps: "tails []" "tails [(''error'', 0)]" "tails [(''completed'', 100)]"
  by (simp_all add: tails_def)

lemma emits_error_handler:
  "emits (io_bind (log_progress E jid sdir ''error'' 0 msg) (\<lambda>_. io_return x)) [(''error'', 0)]"
  using emits_bind [OF emits_log emits_return] by simp

lemma shaped_run_segmentation_pipeline:
  "shaped (run_segmentation_pipeline E jid filepath rdir sdir k) (drop 2 heartbeat)"
proof -
  have "emits (pipeline_try E jid filepath rdir sdir k) (drop 2 heartbeat @ [(''completed'', 100)])"
    using emits_pipeline_try [of E jid filepath rdir sdir k]
    by (simp add: pipeline_script_def heartbeat_def)
  then have "shaped (pipeline_try E jid filepath rdir sdir k) (drop 2 heartbeat)"
    by (rule shaped_emits) (rule tails_simps)
  then show ?thesis
    unfolding run_segmentation_pipeline_def Let_def
    by (rule shaped_try) (rule emits_error_handler tails_simps)+
qed

lemma shaped_run_spark_job_async:
  "shaped (run_spark_job_async E jid filepath filename) (drop 1 heartbeat)"
proof -
  have "shaped (run_spark_job_async E jid filepath filename)
          ((''initializing'', 5) # drop 2 heartbeat)"
    unfolding run_spark_job_async_def
    by (intro shaped_try [where t = "[(''error'', 0)]"] shaped_after
        shaped_then [where t = "[(''completed'', 100)]"]
        shaped_run_segmentation_pipeline emits_update tails_simps)
  then show ?thesis by (simp add: heartbeat_def)
qed

lemma shaped_run_job: "shaped (run_job E jid filepath filename) heartbeat"
proof -
  have "shaped (run_job E jid filepath filename) ((''queued'', 0) # drop 1 heartbeat)"
    unfolding run_job_def
    by (intro shaped_try [where t = "[]"] shaped_after shaped_then [where t = "[]"]
        shaped_thread_start shaped_run_spark_job_async emits_update emits_return tails_simps)
  then show ?thesis by (simp add: heartbeat_def)
qed

lemma until_terminal_keys:
  "map stage_progress_of (until_terminal rs) = 
     takeWhile (\<lambda>k. \<not> terminal_stage (fst k)) (map stage_progress_of rs) @
     filter (\<lambda>k. fst k = ''completed'') (take 1 (dropWhile (\<lambda>k. \<not> terminal_stage (fst k)) (map stage_progress_of rs)))"
  if "stage_progress_of = (\<lambda>r. (stage r, progress r))"
  unfolding until_terminal_def that
  by (simp add: takeWhile_map dropWhile_map filter_map take_map comp_def)

lemma heartbeat_not_terminal: "k \<in> set heartbeat \<Longrightarrow> \<not> terminal_stage (fst k)"
  by (auto simp: heartbeat_def terminal_stage_def)

lemma heartbeat_le_100: "k \<in> set heartbeat \<Longrightarrow> snd k \<le> 100"
  by (auto simp: heartbeat_def)

lemma sorted_heartbeat: "sorted (map snd heartbeat)"
  by (simp add: heartbeat_def)

lemma shape_sorted:
  assumes "shape heartbeat ks"
  shows "sorted (map snd (takeWhile (\<lambda>k. \<not> terminal_stage (fst k)) ks @
     filter (\<lambda>k. fst k = ''completed'') (take 1 (dropWhile (\<lambda>k. \<not> terminal_stage (fst k)) ks))))"
proof -
  obtain n rest where ks: "ks = take n heartbeat @ rest" and rest: "tail_ok rest"
    using assms unfolding shape_def by blast
  have nt: "\<forall>k \<in> set (take n heartbeat). \<not> terminal_stage (fst k)"
    using heartbeat_not_terminal by (meson in_set_takeD)
  have le: "\<forall>k \<in> set (take n heartbeat). snd k \<le> 100"
    using heartbeat_le_100 by (meson in_set_takeD)
  have so: "sorted (map snd (take n heartbeat))"
    using sorted_heartbeat by (simp add: take_map [symmetric] sorted_wrt_take)
  show ?thesis
  proof (cases rest)
    case Nil
    have tw0: "takeWhile (\<lambda>k. \<not> terminal_stage (fst k)) (take n heartbeat) = take n heartbeat"
      using nt by (simp add: takeWhile_eq_all_conv)
    have dw0: "dropWhile (\<lambda>k. \<not> terminal_stage (fst k)) (take n heartbeat) = []"
      using nt by simp
    show ?thesis
      unfolding ks Nil append_Nil2 tw0 dw0 using so by simp
  next
    case (Cons r rs)
    with rest have r: "fst r = ''error'' \<or> r = (''completed'', 100)"
      by (simp add: tail_ok_def)
    then have tr: "terminal_stage (fst r)"
      by (auto simp: terminal_stage_def)
    have tw: "takeWhile (\<lambda>k. \<not> terminal_stage (fst k)) ks = take n heartbeat"
      using ks Cons nt tr by (simp add: takeWhile_append2)
    have dw: "dropWhile (\<lambda>k. \<not> terminal_stage (fst k)) ks = r # rs"
      using ks Cons nt tr by (simp add: dropWhile_append2)
    from r show ?thesis
    proof
      assume "fst r = ''error''"
      with tw dw so show ?thesis by simp
    next
      assume "r = (''completed'', 100)"
      with tw dw so le show ?thesis by (auto simp: sorted_append)
    qed
  qed
qed

text \<open>
  C4. For every environment and every job, the progress values of the status records the
  job writes, from the \<^verbatim>\<open>queued\<close> record of its submission up to its first terminal
  record, never decrease. The terminal record is counted when it is \<^verbatim>\<open>completed\<close>
  (progress 100); an \<^verbatim>\<open>error\<close> record carries progress 0 by the state machine itself.
\<close>

theorem progress_non_decreasing_until_terminal:
  "sorted (map progress (until_terminal (job_writes E jid filepath filename w)))"
proof -
  obtain ws where ws: "status_writes (snd (run_job E jid filepath filename w)) = status_writes w @ ws"
    "shape heartbeat (map stage_progress ws)"
    using shaped_run_job [of E jid filepath filename] unfolding shaped_def by blast
  have jw: "job_writes E jid filepath filename w = map snd ws"
    by (simp add: job_writes_def new_writes_def ws(1))
  have sp: "map stage_progress ws = map (\<lambda>r. (stage r, progress r)) (map snd ws)"
    by (simp add: stage_progress_def)
  have "map progress (until_terminal (map snd ws)) =
          map snd (map (\<lambda>r. (stage r, progress r)) (until_terminal (map snd ws)))"
    by simp
  also have "\<dots> = map snd (takeWhile (\<lambda>k. \<not> terminal_stage (fst k)) (map stage_progress ws) @
     filter (\<lambda>k. fst k = ''completed'')
       (take 1 (dropWhile (\<lambda>k. \<not> terminal_stage (fst k)) (map stage_progress ws))))"
    unfolding sp by (subst until_terminal_keys) (rule refl)+
  finally show ?thesis
    using shape_sorted [OF ws(2)] jw by simp
qed

text \<open>
  C1 at a failing input. A job over an upload without a recency column: the pipeline
  writes its \<^verbatim>\<open>error\<close> record, returns its dictionary, and \<^verbatim>\<open>run_spark_job_async\<close>,
  which never reads that dictionary, writes a \<^verbatim>\<open>completed\<close> record after it.
\<close>

theorem completed_written_after_error:
  "map (\<lambda>r. (stage r, progress r))
     (job_writes sample_env ''job_1'' ''uploads/no_recency.csv'' ''no_recency.csv'' world0) =
   [(''queued'', 0), (''initializing'', 5), (''loading'', 10), (''loading'', 20),
    (''preprocessing'', 25), (''error'', 0), (''completed'', 100)]"
  by (simp add: job_writes_def new_writes_def run_job_def run_spark_job_async_def thread_start_def
      run_segmentation_pipeline_def pipeline_try_def try_except_def io_bind_def io_lift_def
      io_return_def update_job_status_def preprocess_data_def log_progress_def Let_def
      preprocess_cleaning_cases absent_no_recency sample_env_def world0_def)

subsection \<open>Cluster labels\<close>

lemma get_cluster_description_label:
  "get_cluster_description row = Inr d \<longleftrightarrow>
     (\<exists>s a f. avg_spend row = Some s \<and> avg_age row = Some a \<and> avg_frequency row = Some f \<and>
        d = spec_label s a f)"
  unfolding get_cluster_description_def bind_pure_Inr_iff float_opt_Inr_iff spec_label_def
  by auto

text \<open>
  C8. The label of a cluster in its profile is the one the priority rule of the
  specification gives for the cluster's mean spend, mean age and mean frequency (the means
  as aggregated, before they are rounded for display).
\<close>

theorem profile_label_follows_priority_rule:
  "make_cluster_info E row = Inr info \<Longrightarrow>
     \<exists>s a f. avg_spend row = Some s \<and> avg_age row = Some a \<and> avg_frequency row = Some f \<and>
       description info = spec_label s a f"
  unfolding make_cluster_info_def bind_pure_Inr_iff get_cluster_description_label
  by auto

theorem profile_label_follows_priority_rule_witness:
  "(\<exists>info. make_cluster_info sample_env luxury_row = Inr info \<and>
      description info = ''Luxury Segment'') \<and>
   (\<exists>s a f. avg_spend luxury_row = Some s \<and> avg_age luxury_row = Some a \<and>
      avg_frequency luxury_row = Some f \<and> spec_label s a f = ''Luxury Segment'')"
proof -
  obtain info where h: "make_cluster_info sample_env luxury_row = Inr info"
    by (simp add: make_cluster_info_def get_cluster_description_def bind_pure_def luxury_row_def)
  from profile_label_follows_priority_rule [OF h] h show ?thesis
    by (auto simp: luxury_row_def spec_label_def)
qed

subsection \<open>Preprocessing\<close>

text \<open>
  C9. Whenever preprocessing returns a table, it is the table as it stood before the
  outlier step (normalised, validated, filled, null rows dropped, cast): the spend
  statistics are computed and no row is removed because of them.
\<close>

theorem outlier_step_passes_table_through:
  "fst (preprocess_data E df jid sdir w) = Inr out \<Longrightarrow>
     \<exists>before. preprocess_cleaning E df = Inr before \<and> out = before \<and> rows out = rows before"
  unfolding fst_eq_Inr preprocess_data_def io_bind_Inr io_lift_Inr io_return_Inr
  by auto

lemma preprocess_sample_customers:
  "fst (preprocess_data sample_env customers_csv ''job_1'' ''status'' world0) =
     Inr preprocessed_customers"
  by code_simp

theorem outlier_step_passes_table_through_witness:
  "fst (preprocess_data sample_env customers_csv ''job_1'' ''status'' world0) =
     Inr preprocessed_customers \<and>
   preprocess_cleaning sample_env customers_csv = Inr preprocessed_customers"
  using outlier_step_passes_table_through [OF preprocess_sample_customers]
    preprocess_sample_customers
  by simp

text \<open>
  C3 at a failing input. The age of the first customer is the text \<^verbatim>\<open>abc\<close>. No cell is
  null, so nothing is filled and \<^verbatim>\<open>dropna\<close> drops nothing; the cast to double, which
  comes after \<^verbatim>\<open>dropna\<close>, turns the text into null, and the row stays in the table
  that preprocessing returns.
\<close>

theorem unparseable_row_survives_preprocessing:
  "parse_double sample_env ''abc'' = None \<and>
   fst (preprocess_data sample_env text_age_csv ''job_1'' ''status'' world0) =
     Inr preprocessed_text_age \<and>
   [Null, DblV 100, DblV 5, DblV 2] \<in> set (rows preprocessed_text_age)"
  by code_simp

subsection \<open>Clustering\<close>

text \<open>
  \<^verbatim>\<open>perform_clustering\<close> checks neither \<open>k\<close> nor the table: with a writable status
  file it returns exactly when the three library calls return.
\<close>

lemma perform_clustering_returns_iff_library_returns:
  assumes "\<forall>w. fs_open E w (sdir, jid @ ''.json'') = None"
  shows "(\<exists>r. fst (perform_clustering E df k jid sdir w) = Inr r) \<longleftrightarrow>
         (\<exists>model df' s. kmeans_fit E k df = Inr model \<and> kmeans_transform E model df = Inr df' \<and>
            evaluate E model = Inr s)"
  using assms
  by (auto simp: perform_clustering_def io_bind_def io_lift_def io_return_def log_progress_def
      Let_def split: sum.splits)

subsection \<open>Segment profiles\<close>















subsection \<open>The entry point\<close>

text \<open>
  C10, as amended. If the status file of the job can be opened for writing, the entry
  point returns a dictionary for every input: with status \<^verbatim>\<open>'completed'\<close> when the
  \<^verbatim>\<open>try\<close> block returned, and otherwise with status \<^verbatim>\<open>'error'\<close> and the message of
  the exception the \<^verbatim>\<open>try\<close> block raised.
\<close>

theorem pipeline_returns_when_status_writable:
  assumes "\<forall>w. fs_open E w (sdir, jid @ ''.json'') = None"
  shows "\<exists>res. fst (run_segmentation_pipeline E jid filepath rdir sdir k w) = Inr res \<and>
           res_job_id res = jid \<and>
           (status res = ''completed'' \<and> fst (pipeline_try E jid filepath rdir sdir k w) = Inr res \<or>
            status res = ''error'' \<and>
              (\<exists>e. fst (pipeline_try E jid filepath rdir sdir k w) = Inl e \<and> error res = Some (str_exc e)))"
proof (cases "pipeline_try E jid filepath rdir sdir k w")
  case (Pair r w1)
  show ?thesis
  proof (cases r)
    case (Inl e)
    with Pair assms show ?thesis
      by (simp add: run_segmentation_pipeline_def try_except_def io_bind_def io_return_def
          log_progress_def Let_def)
  next
    case (Inr res)
    have "status res = ''completed'' \<and> res_job_id res = jid"
      using Pair Inr
      by (auto simp: pipeline_try_def io_bind_Inr io_lift_Inr io_return_Inr Let_def
          split: prod.splits)
    with Pair Inr show ?thesis
      by (simp add: run_segmentation_pipeline_def try_except_def)
  qed
qed

theorem pipeline_returns_when_status_writable_witness:
  "(\<forall>w. fs_open sample_env w (''status'', ''job_1'' @ ''.json'') = None) \<and>
   (\<exists>res. fst (run_segmentation_pipeline sample_env ''job_1'' ''uploads/customers.csv''
                  ''results'' ''status'' 2 world0) = Inr res \<and>
      res_job_id res = ''job_1'' \<and>
      (status res = ''completed'' \<and>
         fst (pipeline_try sample_env ''job_1'' ''uploads/customers.csv'' ''results'' ''status'' 2
                world0) = Inr res \<or>
       status res = ''error'' \<and>
         (\<exists>e. fst (pipeline_try sample_env ''job_1'' ''uploads/customers.csv'' ''results''
                       ''status'' 2 world0) = Inl e \<and> error res = Some (str_exc e))))"
proof -
  have h: "\<forall>w. fs_open sample_env w (''status'', ''job_1'' @ ''.json'') = None"
    by (simp add: sample_env_def)
  from pipeline_returns_when_status_writable [OF h] h show ?thesis
    by blast
qed

text \<open>
  C10, as stated, fails: with a status directory that does not exist the first status
  write raises inside the \<^verbatim>\<open>try\<close> block, the handler's own status write raises again,
  and that exception leaves the entry point.
\<close>

theorem pipeline_propagates_when_status_unwritable:
  "fst (run_segmentation_pipeline unwritable_env ''job_1'' ''uploads/customers.csv'' ''results''
          ''missing_dir'' 4 world0) = Inl (OSError ''No such file or directory'')"
  by (simp add: run_segmentation_pipeline_def pipeline_try_def try_except_def io_bind_def
      io_lift_def io_return_def log_progress_def unwritable_env_def sample_env_def world0_def)

end
